theory Spec2Isabelle
  imports Main "HOL-Library.Word"
begin

section \<open>Operator identifiers\<close>

text \<open>
  \<^verbatim>\<open>enum class operator_id\<close> is a scoped enumeration over \<^verbatim>\<open>int\<close>: its enumerators
  are numbered from 0 in the order of declaration, and every value of the underlying type
  can be cast to it. An identifier is therefore modelled by its integer value, which
  keeps the comparisons of \<^verbatim>\<open>descriptor_of\<close> and the identifiers outside the enumeration
  expressible. Enumerators whose name is already a constant of HOL carry the suffix
  \<open>_op\<close>.
\<close>

type_synonym operator_id = int

definition invalid :: operator_id where "invalid = 0"
definition bitwise_not :: operator_id where "bitwise_not = 1"
definition bitwise_and :: operator_id where "bitwise_and = 2"
definition bitwise_or :: operator_id where "bitwise_or = 3"
definition bitwise_xor :: operator_id where "bitwise_xor = 4"
definition shift_right :: operator_id where "shift_right = 5"
definition shift_left :: operator_id where "shift_left = 6"
definition rotate_right :: operator_id where "rotate_right = 7"
definition rotate_left :: operator_id where "rotate_left = 8"
definition negate :: operator_id where "negate = 9"
definition add :: operator_id where "add = 10"
definition substract :: operator_id where "substract = 11"
definition multiply_high :: operator_id where "multiply_high = 12"
definition multiply :: operator_id where "multiply = 13"
definition divide_op :: operator_id where "divide_op = 14"
definition remainder :: operator_id where "remainder = 15"
definition umultiply_high :: operator_id where "umultiply_high = 16"
definition umultiply :: operator_id where "umultiply = 17"
definition udivide :: operator_id where "udivide = 18"
definition uremainder :: operator_id where "uremainder = 19"
definition zero_extend :: operator_id where "zero_extend = 20"
definition sign_extend :: operator_id where "sign_extend = 21"
definition popcnt :: operator_id where "popcnt = 22"
definition most_sig_bit :: operator_id where "most_sig_bit = 23"
definition least_sig_bit :: operator_id where "least_sig_bit = 24"
definition bit_test :: operator_id where "bit_test = 25"
definition mask_op :: operator_id where "mask_op = 26"
definition bit_count :: operator_id where "bit_count = 27"
definition value_if :: operator_id where "value_if = 28"
definition max_value :: operator_id where "max_value = 29"
definition min_value :: operator_id where "min_value = 30"
definition smax_value :: operator_id where "smax_value = 31"
definition smin_value :: operator_id where "smin_value = 32"
definition greater_op :: operator_id where "greater_op = 33"
definition greater_eq_op :: operator_id where "greater_eq_op = 34"
definition equal_op :: operator_id where "equal_op = 35"
definition not_equal_op :: operator_id where "not_equal_op = 36"
definition less_eq_op :: operator_id where "less_eq_op = 37"
definition less_op :: operator_id where "less_op = 38"
definition ugreater :: operator_id where "ugreater = 39"
definition ugreater_eq :: operator_id where "ugreater_eq = 40"
definition uless_eq :: operator_id where "uless_eq = 41"
definition uless :: operator_id where "uless = 42"
definition max_op :: operator_id where "max_op = 43"

lemmas operator_id_defs =
  invalid_def bitwise_not_def bitwise_and_def bitwise_or_def bitwise_xor_def
  shift_right_def shift_left_def rotate_right_def rotate_left_def
  negate_def add_def substract_def
  multiply_high_def multiply_def divide_op_def remainder_def
  umultiply_high_def umultiply_def udivide_def uremainder_def
  zero_extend_def sign_extend_def popcnt_def most_sig_bit_def least_sig_bit_def
  bit_test_def mask_op_def bit_count_def value_if_def
  max_value_def min_value_def smax_value_def smin_value_def
  greater_op_def greater_eq_op_def equal_op_def not_equal_op_def less_eq_op_def less_op_def
  ugreater_def ugreater_eq_def uless_eq_def uless_def max_op_def

section \<open>Operator descriptors\<close>

text \<open>
  \<^verbatim>\<open>struct operator_desc\<close>. The two \<^verbatim>\<open>int8_t\<close> fields are 8-bit words, \<^verbatim>\<open>size_t\<close> is
  a 64-bit word, and a \<^verbatim>\<open>const char*\<close> is an optional string, \<open>None\<close> being the null
  pointer.
\<close>

record operator_desc =
  hint_bitwise :: "8 word"
  is_signed :: "8 word"
  operand_count :: "64 word"
  is_commutative :: bool
  symbol :: "string option"
  function_name :: "string option"
  join_by :: operator_id

text \<open>
  Aggregate initialisation of one table row. The table writes \<^verbatim>\<open>is_signed\<close> as a
  \<^verbatim>\<open>bool\<close>, which converts to 0 or 1; a row that omits its last initialiser takes the
  default member initialiser \<^verbatim>\<open>operator_id::invalid\<close>, written out in the rows below.
\<close>

definition desc ::
  "8 word \<Rightarrow> bool \<Rightarrow> 64 word \<Rightarrow> bool \<Rightarrow> string option \<Rightarrow> string option \<Rightarrow> operator_id
    \<Rightarrow> operator_desc" where
  "desc hb sg n comm sy name jb =
     \<lparr>hint_bitwise = hb, is_signed = of_bool sg, operand_count = n, is_commutative = comm,
      symbol = sy, function_name = name, join_by = jb\<rparr>"

text \<open>The value-initialised entry \<^verbatim>\<open>{}\<close> that stands at index \<^verbatim>\<open>invalid\<close>.\<close>

definition empty_desc :: operator_desc where
  "empty_desc = desc 0 False 0 False None None invalid"

definition descriptors :: "operator_desc list" where
  "descriptors =
   [ empty_desc,
     desc   1  False 1 False (Some ''~'')   (Some ''not'')         invalid,
     desc   1  False 2 True  (Some ''&'')   (Some ''and'')         bitwise_and,
     desc   1  False 2 True  (Some ''|'')   (Some ''or'')          bitwise_or,
     desc   1  False 2 True  (Some ''^'')   (Some ''xor'')         bitwise_xor,
     desc   1  False 2 False (Some ''>>'')  (Some ''shr'')         add,
     desc   1  False 2 False (Some ''<<'')  (Some ''shl'')         add,
     desc   1  False 2 False (Some ''>]'')  (Some ''rotr'')        add,
     desc   1  False 2 False (Some ''[<'')  (Some ''rotl'')        add,
     desc (-1) True  1 False (Some ''-'')   (Some ''neg'')         invalid,
     desc (-1) True  2 True  (Some ''+'')   (Some ''add'')         add,
     desc (-1) True  2 False (Some ''-'')   (Some ''sub'')         add,
     desc (-1) True  2 True  (Some ''h*'')  (Some ''mulhi'')       invalid,
     desc (-1) True  2 True  (Some ''*'')   (Some ''mul'')         multiply,
     desc (-1) True  2 False (Some ''/'')   (Some ''div'')         multiply,
     desc (-1) True  2 False (Some ''%'')   (Some ''rem'')         invalid,
     desc (-1) False 2 True  (Some ''uh*'') (Some ''umulhi'')      invalid,
     desc (-1) False 2 True  (Some ''u*'')  (Some ''umul'')        umultiply,
     desc (-1) False 2 False (Some ''u/'')  (Some ''udiv'')        umultiply,
     desc (-1) False 2 False (Some ''u%'')  (Some ''urem'')        invalid,
     desc   0  False 2 False None           (Some ''__zx'')        invalid,
     desc (-1) True  2 False None           (Some ''__sx'')        invalid,
     desc   1  False 1 False None           (Some ''__popcnt'')    invalid,
     desc   1  False 2 False None           (Some ''__msb'')       invalid,
     desc   1  False 2 False None           (Some ''__lsb'')       invalid,
     desc   1  False 2 False None           (Some ''__bt'')        invalid,
     desc   1  False 1 False None           (Some ''__mask'')      invalid,
     desc   1  False 1 False None           (Some ''__bcnt'')      invalid,
     desc   0  False 2 False (Some ''?'')   (Some ''if'')          invalid,
     desc   0  False 2 False None           (Some ''max'')         max_value,
     desc   0  False 2 False None           (Some ''min'')         min_value,
     desc   0  True  2 False None           (Some ''max_sgn'')     smax_value,
     desc   0  True  2 False None           (Some ''min_sgn'')     smin_value,
     desc (-1) True  2 False (Some ''>'')   (Some ''greater'')     invalid,
     desc (-1) True  2 False (Some ''>='')  (Some ''greater_eq'')  invalid,
     desc   0  False 2 False (Some ''=='')  (Some ''equal'')       invalid,
     desc   0  False 2 False (Some ''!='')  (Some ''not_equal'')   invalid,
     desc (-1) True  2 False (Some ''<='')  (Some ''less_eq'')     invalid,
     desc (-1) True  2 False (Some ''<'')   (Some ''less'')        invalid,
     desc   0  False 2 False (Some ''u>'')  (Some ''ugreater'')    invalid,
     desc   0  False 2 False (Some ''u>='') (Some ''ugreater_eq'') invalid,
     desc   0  False 2 False (Some ''u<='') (Some ''uless_eq'')    invalid,
     desc   0  False 2 False (Some ''u<'')  (Some ''uless'')       invalid ]"

text \<open>
  \<^verbatim>\<open>descriptor_of\<close> returns a pointer into the table, or the null pointer. The cast
  \<^verbatim>\<open>(size_t) id\<close> is only evaluated under the guard, where the identifier is positive.
\<close>

definition descriptor_of :: "operator_id \<Rightarrow> operator_desc option" where
  "descriptor_of oid =
     (if invalid < oid \<and> oid < max_op then Some (descriptors ! nat oid) else None)"

section \<open>Printing\<close>

datatype error = Unreachable | Null_String | Missing_Argument

text \<open>
  Modelled from the spec: \<^verbatim>\<open>format::str\<close>, the formatter that \<^verbatim>\<open>to_string\<close> calls, is
  declared in the formatting header of the repository, which is not among the sources.
  The printed forms the specification gives for the format strings of \<^verbatim>\<open>to_string\<close>
  are those of a \<^verbatim>\<open>printf\<close>-style formatter: every directive \<^verbatim>\<open>%s\<close> of the format is
  replaced by the next argument, in order, every other character is copied, and
  arguments left over when the format ends are ignored. Only \<^verbatim>\<open>%s\<close> is modelled, the
  one directive \<^verbatim>\<open>to_string\<close> uses. A directive that finds no argument, or a null
  string, has no defined output and is an error of the model.
\<close>

fun format_str :: "string \<Rightarrow> string option list \<Rightarrow> error + string" where
  "format_str [] args = Inr []"
| "format_str [c] args = Inr [c]"
| "format_str (c # d # fmt) args =
     (if c = CHR ''%'' \<and> d = CHR ''s'' then
        (case args of
           [] \<Rightarrow> Inl Missing_Argument
         | None # rest \<Rightarrow> Inl Null_String
         | Some s # rest \<Rightarrow> map_sum id ((@) s) (format_str fmt rest))
      else map_sum id ((#) c) (format_str (d # fmt) args))"

text \<open>
  \<^verbatim>\<open>operator_desc::to_string\<close>. The operands are \<^verbatim>\<open>std::string\<close> references and never
  null; \<^verbatim>\<open>symbol\<close> is tested before it is used; \<^verbatim>\<open>function_name\<close> is handed to the
  formatter untested. Falling through both arities reaches \<^verbatim>\<open>unreachable()\<close>.
\<close>

definition to_string :: "operator_desc \<Rightarrow> string \<Rightarrow> string \<Rightarrow> error + string" where
  "to_string d lhs rhs =
     (if operand_count d = 1 then
        (case symbol d of
           Some sy \<Rightarrow> Inr (sy @ rhs)
         | None \<Rightarrow> format_str ''%s(%s)'' [function_name d, Some lhs, Some rhs])
      else if operand_count d = 2 then
        (case symbol d of
           Some sy \<Rightarrow> format_str ''(%s%s%s)'' [Some lhs, Some sy, Some rhs]
         | None \<Rightarrow> format_str ''%s(%s, %s)'' [function_name d, Some lhs, Some rhs])
      else Inl Unreachable)"

section \<open>Result width rounding\<close>

definition bit_index_size :: "8 word" where
  "bit_index_size = 8"

definition round_bit_count :: "8 word \<Rightarrow> 8 word" where
  "round_bit_count n =
     (if n > 32 then 64
      else if n > 16 then 32
      else if n > 8 then 16
      else if n > 1 then 8
      else 1)"

section \<open>Shared facts\<close>

text \<open>The identifiers strictly between \<open>invalid\<close> and \<open>max_op\<close> are the 42 values 1 to 42.\<close>

lemma valid_id_upto:
  assumes "invalid < oid" and "oid < max_op"
  shows "oid \<in> set [1..42]"
  using assms by (simp add: operator_id_defs)

lemma valid_id_cases:
  assumes "invalid < oid" and "oid < max_op"
  shows "oid \<in> {1, 2, 3, 4, 5, 6, 7, 8, 9, 10, 11, 12, 13, 14, 15, 16, 17, 18, 19, 20, 21,
    22, 23, 24, 25, 26, 27, 28, 29, 30, 31, 32, 33, 34, 35, 36, 37, 38, 39, 40, 41, 42}"
  using valid_id_upto [OF assms] by (simp add: upto_rec1)

lemma length_descriptors: "length descriptors = 43"
  by (simp add: descriptors_def)

text \<open>Under the guard of \<open>descriptor_of\<close> the index reads one of the rows after the first.\<close>

lemma nth_descriptors_in_tl:
  assumes "invalid < oid" and "oid < max_op"
  shows "descriptors ! nat oid \<in> set (tl descriptors)"
proof -
  obtain k where k: "nat oid = Suc k" and len: "k < length (tl descriptors)"
    using assms by (cases "nat oid") (auto simp: operator_id_defs length_descriptors)
  from len have "tl descriptors ! k \<in> set (tl descriptors)"
    by (intro nth_mem)
  with k len show ?thesis
    by (simp add: nth_tl)
qed

lemma descriptor_of_SomeD:
  assumes "descriptor_of oid = Some d"
  shows "invalid < oid" and "oid < max_op" and "d = descriptors ! nat oid"
  using assms by (auto simp: descriptor_of_def split: if_splits)

text \<open>Every row after the first has one or two operands and a name.\<close>

lemma rows_well_formed:
  "\<forall>d \<in> set (tl descriptors).
     (operand_count d = 1 \<or> operand_count d = 2) \<and> function_name d \<noteq> None"
  by (simp add: descriptors_def desc_def)

text \<open>The three format strings of \<open>to_string\<close>, on non-null arguments.\<close>

lemma format_str_unary:
  "format_str ''%s(%s)'' (Some f # Some a # rest) = Inr (f @ ''('' @ a @ '')'')"
  by simp

lemma format_str_infix:
  "format_str ''(%s%s%s)'' (Some a # Some b # Some c # rest) = Inr (''('' @ a @ b @ c @ '')'')"
  by simp

lemma format_str_call:
  "format_str ''%s(%s, %s)'' (Some f # Some a # Some b # rest) =
     Inr (f @ ''('' @ a @ '', '' @ b @ '')'')"
  by simp

text \<open>
  The unary function form prints the name and the left operand only: the format has two
  directives, so the third argument, the right operand, is never read.
\<close>

lemma to_string_unary_function:
  assumes "operand_count d = 1" and "symbol d = None" and "function_name d = Some f"
  shows "to_string d lhs rhs = Inr (f @ ''('' @ lhs @ '')'')"
  using assms by (simp add: to_string_def)

text \<open>The failure branches of the model are real: the placeholder entry reaches them.\<close>

lemma to_string_empty_desc: "to_string empty_desc lhs rhs = Inl Unreachable"
  by (simp add: to_string_def empty_desc_def desc_def)

lemma to_string_null_name:
  assumes "operand_count d = 2" and "symbol d = None" and "function_name d = None"
  shows "to_string d lhs rhs = Inl Null_String"
  using assms by (simp add: to_string_def)

lemma to_string_returns:
  assumes "operand_count d = 1 \<or> operand_count d = 2" and "function_name d = Some f"
  shows "\<exists>s. to_string d lhs rhs = Inr s"
  using assms by (auto simp: to_string_def split: option.splits)

text \<open>The branches of \<open>round_bit_count\<close>, read on the unsigned values.\<close>

lemma round_bit_count_cases:
  "round_bit_count n =
     (if n \<le> 1 then 1 else if n \<le> 8 then 8 else if n \<le> 16 then 16
      else if n \<le> 32 then 32 else 64)"
  by (simp add: round_bit_count_def word_le_nat_alt word_less_nat_alt)

lemma round_bit_count_idem: "round_bit_count (round_bit_count n) = round_bit_count n"
  by (simp add: round_bit_count_def)

lemma round_bit_count_mono: "n \<le> m \<Longrightarrow> round_bit_count n \<le> round_bit_count m"
  by (simp add: round_bit_count_def word_le_nat_alt word_less_nat_alt)

lemma round_bit_count_ge: "n \<le> 64 \<Longrightarrow> n \<le> round_bit_count n"
  by (simp add: round_bit_count_def word_le_nat_alt word_less_nat_alt)

section \<open>The operator catalog\<close>

text \<open>
  C1. \<open>descriptor_of\<close> returns a descriptor exactly for the identifiers strictly between
  \<open>invalid\<close> and \<open>max_op\<close>. It returns nothing for \<open>invalid\<close>, for \<open>max_op\<close> and for
  every identifier below or above the enumeration. For a valid identifier the index lies
  inside the table and the descriptor returned is the table entry at that index.
\<close>

theorem descriptor_of_valid_iff:
  "(descriptor_of oid \<noteq> None \<longleftrightarrow> invalid < oid \<and> oid < max_op) \<and>
   descriptor_of invalid = None \<and>
   descriptor_of max_op = None \<and>
   (oid < invalid \<or> max_op < oid \<longrightarrow> descriptor_of oid = None) \<and>
   (invalid < oid \<and> oid < max_op \<longrightarrow>
      nat oid < length descriptors \<and> descriptor_of oid = Some (descriptors ! nat oid))"
  by (auto simp: descriptor_of_def length_descriptors operator_id_defs)

theorem descriptor_of_valid_iff_witness:
  "(invalid < add \<and> add < max_op \<and>
      descriptor_of add = Some (desc (-1) True 2 True (Some ''+'') (Some ''add'') add)) \<and>
   ((50 < invalid \<or> max_op < 50) \<and> descriptor_of 50 = None) \<and>
   ((-1 < invalid \<or> max_op < -1) \<and> descriptor_of (-1) = None)"
  using descriptor_of_valid_iff [of add] descriptor_of_valid_iff [of 50]
    descriptor_of_valid_iff [of "-1"]
  by (simp add: operator_id_defs descriptors_def)

text \<open>
  C3, as stated: the table has \<open>max_op - 1\<close> entries. It does not: the table opens with
  the placeholder for \<open>invalid\<close>, so that an identifier indexes it directly.
\<close>

theorem descriptors_length_counterexample:
  "int (length descriptors) \<noteq> max_op - 1"
  by (simp add: length_descriptors max_op_def)

text \<open>
  C3, amended: the table has exactly \<open>max_op\<close> entries, namely the value-initialised
  placeholder at index \<open>invalid\<close> followed by \<open>max_op - 1\<close> rows, one for each identifier
  strictly between \<open>invalid\<close> and \<open>max_op\<close>.
\<close>

theorem descriptors_length:
  "int (length descriptors) = max_op \<and>
   descriptors ! nat invalid = empty_desc \<and>
   int (length (tl descriptors)) = max_op - 1"
  by (simp add: descriptors_def operator_id_defs)

text \<open>
  C7. The descriptor of \<open>add\<close> joins by \<open>add\<close>, the descriptor of \<open>shift_right\<close> joins by
  \<open>add\<close>, and the descriptors of \<open>remainder\<close> and \<open>multiply_high\<close> have no join operator:
  their \<open>join_by\<close> is \<open>invalid\<close>.
\<close>

theorem join_by_entries:
  "map_option join_by (descriptor_of add) = Some add \<and>
   map_option join_by (descriptor_of shift_right) = Some add \<and>
   map_option join_by (descriptor_of remainder) = Some invalid \<and>
   map_option join_by (descriptor_of multiply_high) = Some invalid"
  by (simp add: descriptor_of_def descriptors_def desc_def operator_id_defs)

text \<open>
  C8. In the table, \<open>equal_op\<close> and \<open>not_equal_op\<close> are not signed; \<open>greater_op\<close>,
  \<open>greater_eq_op\<close>, \<open>less_eq_op\<close> and \<open>less_op\<close> are signed; \<open>ugreater\<close>, \<open>ugreater_eq\<close>,
  \<open>uless_eq\<close> and \<open>uless\<close> are not signed. The field is an \<^verbatim>\<open>int8_t\<close>: false is 0 and
  true is 1.
\<close>

theorem is_signed_comparisons:
  "map_option is_signed (descriptor_of equal_op) = Some 0 \<and>
   map_option is_signed (descriptor_of not_equal_op) = Some 0 \<and>
   map_option is_signed (descriptor_of greater_op) = Some 1 \<and>
   map_option is_signed (descriptor_of greater_eq_op) = Some 1 \<and>
   map_option is_signed (descriptor_of less_eq_op) = Some 1 \<and>
   map_option is_signed (descriptor_of less_op) = Some 1 \<and>
   map_option is_signed (descriptor_of ugreater) = Some 0 \<and>
   map_option is_signed (descriptor_of ugreater_eq) = Some 0 \<and>
   map_option is_signed (descriptor_of uless_eq) = Some 0 \<and>
   map_option is_signed (descriptor_of uless) = Some 0"
  by (simp add: descriptor_of_def descriptors_def desc_def operator_id_defs)

text \<open>
  C10. A valid operator's descriptor reports \<open>is_commutative\<close> exactly when the operator
  is one of \<open>bitwise_and\<close>, \<open>bitwise_or\<close>, \<open>bitwise_xor\<close>, \<open>add\<close>, \<open>multiply_high\<close>,
  \<open>multiply\<close>, \<open>umultiply_high\<close> and \<open>umultiply\<close>; the descriptor of every other valid
  operator has the flag false.
\<close>

theorem is_commutative_iff:
  assumes "descriptor_of oid = Some d"
  shows "is_commutative d \<longleftrightarrow>
    oid \<in> {bitwise_and, bitwise_or, bitwise_xor, add, multiply_high, multiply,
      umultiply_high, umultiply}"
proof -
  note v = descriptor_of_SomeD [OF assms]
  from valid_id_cases [OF v(1,2)] show ?thesis
    unfolding v(3) by (auto simp: descriptors_def desc_def operator_id_defs)
qed

theorem is_commutative_iff_witness:
  "descriptor_of multiply = Some (desc (-1) True 2 True (Some ''*'') (Some ''mul'') multiply) \<and>
   is_commutative (desc (-1) True 2 True (Some ''*'') (Some ''mul'') multiply) \<and>
   descriptor_of substract = Some (desc (-1) True 2 False (Some ''-'') (Some ''sub'') add) \<and>
   \<not> is_commutative (desc (-1) True 2 False (Some ''-'') (Some ''sub'') add)"
proof -
  have m: "descriptor_of multiply =
      Some (desc (-1) True 2 True (Some ''*'') (Some ''mul'') multiply)"
    by (simp add: descriptor_of_def descriptors_def operator_id_defs)
  have s: "descriptor_of substract =
      Some (desc (-1) True 2 False (Some ''-'') (Some ''sub'') add)"
    by (simp add: descriptor_of_def descriptors_def operator_id_defs)
  show ?thesis
    using m s is_commutative_iff [OF m] is_commutative_iff [OF s]
    by (simp add: operator_id_defs)
qed

section \<open>Printing a descriptor\<close>

text \<open>
  C4, at the descriptor of \<open>popcnt\<close>, which has one operand and no symbol: with the
  operands \<open>a\<close> and \<open>b\<close>, \<open>to_string\<close> returns \<open>__popcnt(a)\<close>, not the function-call form
  with both operands \<open>__popcnt(a, b)\<close>.
\<close>

theorem to_string_popcnt:
  "\<exists>d. descriptor_of popcnt = Some d \<and> operand_count d = 1 \<and> symbol d = None \<and>
     to_string d ''a'' ''b'' = Inr ''__popcnt(a)'' \<and>
     to_string d ''a'' ''b'' \<noteq> Inr ''__popcnt(a, b)''"
  by (simp add: descriptor_of_def descriptors_def desc_def operator_id_defs to_string_def)

text \<open>
  C5. For every descriptor and all operand strings: with one operand and a symbol,
  \<open>to_string\<close> returns the symbol followed by the right operand; with two operands and a
  symbol, it returns the parenthesised infix form, the left operand, the symbol and the
  right operand between parentheses, with nothing between the three; with two operands,
  no symbol and a function name, it returns the name followed by the two operands between
  parentheses, separated by a comma and a blank.
\<close>

theorem to_string_forms:
  "(operand_count d = 1 \<and> symbol d = Some sy \<longrightarrow> to_string d lhs rhs = Inr (sy @ rhs)) \<and>
   (operand_count d = 2 \<and> symbol d = Some sy \<longrightarrow>
      to_string d lhs rhs = Inr (''('' @ lhs @ sy @ rhs @ '')'')) \<and>
   (operand_count d = 2 \<and> symbol d = None \<and> function_name d = Some f \<longrightarrow>
      to_string d lhs rhs = Inr (f @ ''('' @ lhs @ '', '' @ rhs @ '')''))"
  by (simp add: to_string_def)

theorem to_string_forms_witness:
  "(operand_count (descriptors ! 9) = 1 \<and> symbol (descriptors ! 9) = Some ''-'' \<and>
      to_string (descriptors ! 9) ''x'' ''y'' = Inr ''-y'') \<and>
   (operand_count (descriptors ! 10) = 2 \<and> symbol (descriptors ! 10) = Some ''+'' \<and>
      to_string (descriptors ! 10) ''x'' ''y'' = Inr ''(x+y)'') \<and>
   (operand_count (descriptors ! 29) = 2 \<and> symbol (descriptors ! 29) = None \<and>
      function_name (descriptors ! 29) = Some ''max'' \<and>
      to_string (descriptors ! 29) ''x'' ''y'' = Inr ''max(x, y)'')"
  using to_string_forms [of "descriptors ! 9" "''-''" "''x''" "''y''"]
    to_string_forms [of "descriptors ! 10" "''+''" "''x''" "''y''"]
    to_string_forms [of "descriptors ! 29" _ "''x''" "''y''" "''max''"]
  by (simp add: descriptors_def desc_def)

text \<open>
  C6. For every identifier strictly between \<open>invalid\<close> and \<open>max_op\<close>, the descriptor that
  \<open>descriptor_of\<close> returns has one or two operands and a non-null function name, and
  \<open>to_string\<close> on it returns a string for all operands: it neither reaches
  \<^verbatim>\<open>unreachable()\<close> nor formats a null name. The descriptors of \<open>most_sig_bit\<close> and
  \<open>least_sig_bit\<close> have two operands.
\<close>

theorem valid_descriptor_printable:
  "(invalid < oid \<and> oid < max_op \<longrightarrow>
      (\<exists>d f. descriptor_of oid = Some d \<and>
         (operand_count d = 1 \<or> operand_count d = 2) \<and>
         function_name d = Some f \<and>
         (\<forall>lhs rhs. \<exists>s. to_string d lhs rhs = Inr s))) \<and>
   map_option operand_count (descriptor_of most_sig_bit) = Some 2 \<and>
   map_option operand_count (descriptor_of least_sig_bit) = Some 2"
proof (intro conjI impI)
  assume v: "invalid < oid \<and> oid < max_op"
  define d where "d = descriptors ! nat oid"
  from v have "d \<in> set (tl descriptors)"
    unfolding d_def by (intro nth_descriptors_in_tl) simp_all
  with rows_well_formed obtain f
    where n: "operand_count d = 1 \<or> operand_count d = 2" and f: "function_name d = Some f"
    by auto
  from v have "descriptor_of oid = Some d"
    by (simp add: descriptor_of_def d_def)
  moreover have "\<forall>lhs rhs. \<exists>s. to_string d lhs rhs = Inr s"
    using to_string_returns [OF n f] by blast
  ultimately show "\<exists>d f. descriptor_of oid = Some d \<and>
      (operand_count d = 1 \<or> operand_count d = 2) \<and> function_name d = Some f \<and>
      (\<forall>lhs rhs. \<exists>s. to_string d lhs rhs = Inr s)"
    using n f by blast
next
  show "map_option operand_count (descriptor_of most_sig_bit) = Some 2"
    by (simp add: descriptor_of_def descriptors_def desc_def operator_id_defs)
next
  show "map_option operand_count (descriptor_of least_sig_bit) = Some 2"
    by (simp add: descriptor_of_def descriptors_def desc_def operator_id_defs)
qed

theorem valid_descriptor_printable_witness:
  "invalid < most_sig_bit \<and> most_sig_bit < max_op \<and>
   (\<exists>d. descriptor_of most_sig_bit = Some d \<and> operand_count d = 2 \<and>
      function_name d = Some ''__msb'' \<and> to_string d ''x'' ''y'' = Inr ''__msb(x, y)'')"
  using valid_descriptor_printable [of most_sig_bit]
  by (simp add: descriptor_of_def descriptors_def desc_def operator_id_defs to_string_def)

section \<open>Rounding of result widths\<close>

text \<open>
  C2. For every bit count \<open>n\<close> of at most 64, \<open>round_bit_count n\<close> is 1 if \<open>n \<le> 1\<close>, 8 if
  \<open>n \<le> 8\<close>, 16 if \<open>n \<le> 16\<close>, 32 if \<open>n \<le> 32\<close> and 64 otherwise; its result is one of 1,
  8, 16, 32 and 64.
\<close>

theorem round_bit_count_spec:
  assumes "n \<le> 64"
  shows "round_bit_count n =
      (if n \<le> 1 then 1 else if n \<le> 8 then 8 else if n \<le> 16 then 16
       else if n \<le> 32 then 32 else 64) \<and>
    round_bit_count n \<in> {1, 8, 16, 32, 64}"
  by (simp add: round_bit_count_cases)

theorem round_bit_count_spec_witness:
  "(9 :: 8 word) \<le> 64 \<and> round_bit_count 9 = 16 \<and> round_bit_count 9 \<in> {1, 8, 16, 32, 64}"
proof -
  have h: "(9 :: 8 word) \<le> 64" by simp
  show ?thesis using h round_bit_count_spec [OF h] by (simp add: word_le_nat_alt)
qed

text \<open>
  C9. \<open>round_bit_count\<close> is idempotent on every 8-bit count, monotone on the 8-bit counts,
  and never below its argument when the argument is at most 64.
\<close>

theorem round_bit_count_idem_mono:
  "round_bit_count (round_bit_count n) = round_bit_count n \<and>
   (n \<le> m \<longrightarrow> round_bit_count n \<le> round_bit_count m) \<and>
   (n \<le> 64 \<longrightarrow> n \<le> round_bit_count n)"
  by (simp add: round_bit_count_idem round_bit_count_mono round_bit_count_ge)

theorem round_bit_count_idem_mono_witness:
  "round_bit_count (round_bit_count 9) = round_bit_count 9 \<and>
   ((9 :: 8 word) \<le> 33 \<and> round_bit_count 9 \<le> round_bit_count 33) \<and>
   ((9 :: 8 word) \<le> 64 \<and> 9 \<le> round_bit_count 9)"
  using round_bit_count_idem_mono [of 9 33]
  by simp

end
